theory Spec2Isabelle
  imports Complex_Main "HOL-Library.Word"
begin

unbundle bit_operations_syntax

section \<open>JavaScript values\<close>

text \<open>
  Exceptions are values: \<open>TypeError\<close> is what reading a property of \<open>null\<close> or
  \<open>undefined\<close> raises, \<open>Error msg\<close> is \<open>new Error(msg)\<close>.
\<close>

datatype error = TypeError | Error string

text \<open>
  A JavaScript number, as far as \<open>Math.min\<close>, \<open>Math.max\<close>, \<open>===\<close> and the comparison \<open><\<close> see it:
  a finite value, one of the two infinities, or \<open>NaN\<close>. Every finite double is a real
  and the four operations are exact on doubles.
\<close>

datatype number = NaN | NegInfinity | Finite real | Infinity

fun num_lt :: "number \<Rightarrow> number \<Rightarrow> bool" where
  "num_lt NaN b = False"
| "num_lt a NaN = False"
| "num_lt a NegInfinity = False"
| "num_lt NegInfinity b = True"
| "num_lt Infinity b = False"
| "num_lt (Finite x) Infinity = True"
| "num_lt (Finite x) (Finite y) = (x < y)"

fun num_eq :: "number \<Rightarrow> number \<Rightarrow> bool" where
  "num_eq NaN b = False"
| "num_eq a NaN = False"
| "num_eq a b = (a = b)"

definition num_le :: "number \<Rightarrow> number \<Rightarrow> bool" where
  "num_le a b = (num_lt a b \<or> num_eq a b)"

definition Math_min :: "number \<Rightarrow> number \<Rightarrow> number" where
  "Math_min a b = (if a = NaN \<or> b = NaN then NaN else if num_lt b a then b else a)"

definition Math_max :: "number \<Rightarrow> number \<Rightarrow> number" where
  "Math_max a b = (if a = NaN \<or> b = NaN then NaN else if num_lt a b then b else a)"

text \<open>
  The values a caller can pass where a number is expected. An object is represented by
  what \<open>ToPrimitive\<close> (hint number) makes of it: a primitive value, or a throw.
\<close>

datatype primitive =
    JSUndefined | JSNull | JSBoolean bool | JSNumber number | JSString string
  | JSBigInt int | JSSymbol

datatype jsvalue = Primitive primitive | Object "error + primitive"

text \<open>
  \<open>ToNumber\<close>, the conversion that \<open>Math.min\<close> and \<open>Math.max\<close> apply to each argument.
  It throws \<open>TypeError\<close> on a BigInt and on a Symbol. The numeric value of a string
  (white space, decimal and hexadecimal literals, rounding to a double) is the parameter
  \<open>StringToNumber\<close>.
\<close>

fun ToNumber_primitive :: "(string \<Rightarrow> number) \<Rightarrow> primitive \<Rightarrow> error + number" where
  "ToNumber_primitive StringToNumber JSUndefined = Inr NaN"
| "ToNumber_primitive StringToNumber JSNull = Inr (Finite 0)"
| "ToNumber_primitive StringToNumber (JSBoolean b) = Inr (Finite (if b then 1 else 0))"
| "ToNumber_primitive StringToNumber (JSNumber n) = Inr n"
| "ToNumber_primitive StringToNumber (JSString str) = Inr (StringToNumber str)"
| "ToNumber_primitive StringToNumber (JSBigInt n) = Inl TypeError"
| "ToNumber_primitive StringToNumber JSSymbol = Inl TypeError"

fun ToNumber :: "(string \<Rightarrow> number) \<Rightarrow> jsvalue \<Rightarrow> error + number" where
  "ToNumber StringToNumber (Primitive v) = ToNumber_primitive StringToNumber v"
| "ToNumber StringToNumber (Object (Inl e)) = Inl e"
| "ToNumber StringToNumber (Object (Inr v)) = ToNumber_primitive StringToNumber v"

text \<open>
  Strings are lists of code units; \<open>charCodeAt\<close> is \<open>of_char\<close> (code units below 256).
  A string is truthy when it is not empty; a property that may be missing is an option,
  \<open>None\<close> standing for \<open>undefined\<close>.
\<close>

definition truthy :: "string \<Rightarrow> bool" where
  "truthy s = (s \<noteq> [])"

definition truthy_opt :: "string option \<Rightarrow> bool" where
  "truthy_opt x = (case x of None \<Rightarrow> False | Some s \<Rightarrow> truthy s)"

definition String_of :: "string option \<Rightarrow> string" where
  "String_of x = (case x of None \<Rightarrow> ''undefined'' | Some s \<Rightarrow> s)"

section \<open>Domain models\<close>

text \<open>
  \<open>EvaluationContext\<close>: \<open>userId\<close> and \<open>tenantId\<close> are whatever the caller passed, so
  either may be missing. \<open>additionalData\<close> is never read by the code modelled here and is
  left out.
\<close>

record EvaluationContext =
  userId :: "string option"
  tenantId :: "string option"

text \<open>
  The rule classes. \<open>Rule\<close> is the base class, whose \<open>evaluate\<close> throws; the three
  subclasses fix their \<open>type\<close>. A constructor term is the state of the object, so its
  \<open>percentage\<close> is whatever is stored; \<open>new_PercentageRule\<close> below is the JavaScript
  constructor.
\<close>

datatype rule =
    Rule (rule_id: string) (rule_type: string) (rule_enabled: bool) (rule_createdAt: int)
  | TenantRule (rule_id: string) (rule_enabled: bool) (rule_createdAt: int)
      (tenantIds: "string list")
  | UserRule (rule_id: string) (rule_enabled: bool) (rule_createdAt: int)
      (userIds: "string list")
  | PercentageRule (rule_id: string) (rule_enabled: bool) (rule_createdAt: int)
      (percentage: number)

text \<open>
  The constructor of \<open>PercentageRule\<close>. Its \<open>percentage\<close> argument, here \<open>given\<close>, is
  untyped: the
  default \<open>percentage = 0\<close> replaces \<open>undefined\<close> only, and
  \<open>Math.max(0, Math.min(100, percentage))\<close> converts what it is given with \<open>ToNumber\<close>,
  which may throw.
\<close>

definition new_PercentageRule ::
  "(string \<Rightarrow> number) \<Rightarrow> string \<Rightarrow> jsvalue \<Rightarrow> bool \<Rightarrow> int \<Rightarrow> error + rule" where
  "new_PercentageRule StringToNumber i given en t =
     (case ToNumber StringToNumber
             (if given = Primitive JSUndefined then Primitive (JSNumber (Finite 0))
              else given) of
        Inl e \<Rightarrow> Inl e
      | Inr p \<Rightarrow> Inr (PercentageRule i en t (Math_max (Finite 0) (Math_min (Finite 100) p))))"

text \<open>\<open>array.includes(x)\<close> on an array of strings; \<open>undefined\<close> is never a member.\<close>

definition Array_includes :: "string list \<Rightarrow> string option \<Rightarrow> bool" where
  "Array_includes xs x = (case x of None \<Rightarrow> False | Some s \<Rightarrow> s \<in> set xs)"

text \<open>
  \<open>PercentageRule._hash\<close>: the loop over the code units, the accumulator kept as a 32-bit
  word. \<open>(hash << 5) - hash + char\<close> is exact on doubles and \<open>hash & hash\<close> reduces it
  modulo \<open>2^32\<close> to a signed value, which is word arithmetic; \<open>Math.abs\<close> reads the word
  as signed.
\<close>

fun hash_loop :: "string \<Rightarrow> 32 word \<Rightarrow> 32 word" where
  "hash_loop [] h = h"
| "hash_loop (c # cs) h = hash_loop cs ((push_bit 5 h - h) + of_nat (of_char c))"

definition PercentageRule_hash :: "string \<Rightarrow> nat" where
  "PercentageRule_hash str = nat \<bar>sint (hash_loop str 0)\<bar>"

text \<open>
  \<open>rule.evaluate(context)\<close>. The context may be \<open>null\<close> (\<open>None\<close>); reading one of its
  properties then raises \<open>TypeError\<close>, but only on the paths that read it. The
  short-circuit \<open>!this.enabled || this.percentage === 0\<close> is written as two tests.
\<close>

fun evaluate_rule :: "rule \<Rightarrow> EvaluationContext option \<Rightarrow> error + bool" where
  "evaluate_rule (Rule i ty en t) context =
     Inl (Error ''evaluate() must be implemented by subclasses'')"
| "evaluate_rule (TenantRule i en t tids) context =
     (if \<not> en then Inr False
      else case context of None \<Rightarrow> Inl TypeError
           | Some c \<Rightarrow> Inr (Array_includes tids (tenantId c)))"
| "evaluate_rule (UserRule i en t uids) context =
     (if \<not> en then Inr False
      else case context of None \<Rightarrow> Inl TypeError
           | Some c \<Rightarrow> Inr (Array_includes uids (userId c)))"
| "evaluate_rule (PercentageRule i en t p) context =
     (if \<not> en then Inr False
      else if num_eq p (Finite 0) then Inr False
      else if num_eq p (Finite 100) then Inr True
      else case context of None \<Rightarrow> Inl TypeError
           | Some c \<Rightarrow>
               (let hash = PercentageRule_hash (String_of (userId c) @ '':'' @ String_of (tenantId c));
                    bucket = hash mod 100
                in Inr (num_lt (Finite (real bucket)) p)))"

section \<open>Feature flags and the evaluation engine\<close>

record FeatureFlag =
  flag_id :: string
  flag_name :: string
  flag_description :: string
  flag_enabled :: bool
  flag_rules :: "rule list"
  flag_createdAt :: int
  flag_updatedAt :: int

record EvaluationResult =
  enabled :: bool
  matchedRule :: "rule option"
  fallbackToDefault :: bool
  evaluationTime :: int

text \<open>
  \<open>_evaluateRules\<close>: the loop over the rules with its \<open>try\<close>/\<open>catch\<close>. The handler logs
  \<open>context.userId\<close> and \<open>context.tenantId\<close> before it goes on, which raises again when the
  context is \<open>null\<close>.
\<close>

fun evaluateRules :: "rule list \<Rightarrow> EvaluationContext option \<Rightarrow> error + rule option" where
  "evaluateRules [] context = Inr None"
| "evaluateRules (r # rs) context =
     (case evaluate_rule r context of
        Inr b \<Rightarrow> if b then Inr (Some r) else evaluateRules rs context
      | Inl e \<Rightarrow> (case context of None \<Rightarrow> Inl TypeError
                 | Some c \<Rightarrow> evaluateRules rs context))"

text \<open>
  \<open>_validateEvaluationInputs\<close>. The last test, \<open>Array.isArray(featureFlag.rules)\<close>, holds
  of every \<open>rule list\<close>.
\<close>

definition validateEvaluationInputs ::
  "FeatureFlag option \<Rightarrow> EvaluationContext option \<Rightarrow> error + unit" where
  "validateEvaluationInputs featureFlag context =
     (case featureFlag of
        None \<Rightarrow> Inl (Error ''Feature flag is required'')
      | Some f \<Rightarrow>
          (case context of
             None \<Rightarrow> Inl (Error ''Evaluation context is required'')
           | Some c \<Rightarrow>
               if \<not> truthy_opt (userId c) then Inl (Error ''User ID is required in evaluation context'')
               else if \<not> truthy_opt (tenantId c) then Inl (Error ''Tenant ID is required in evaluation context'')
               else Inr ()))"

text \<open>
  Every log entry of \<open>evaluate\<close> is built from \<open>featureFlag.id\<close>, \<open>featureFlag.name\<close>,
  \<open>context.userId\<close> and \<open>context.tenantId\<close>: building it raises when either object is
  \<open>null\<close>.
\<close>

definition log_fields :: "FeatureFlag option \<Rightarrow> EvaluationContext option \<Rightarrow> error + unit" where
  "log_fields featureFlag context =
     (case featureFlag of None \<Rightarrow> Inl TypeError
      | Some f \<Rightarrow> (case context of None \<Rightarrow> Inl TypeError | Some c \<Rightarrow> Inr ()))"

text \<open>
  The body of the \<open>try\<close> block of \<open>evaluate\<close>; \<open>startTime\<close> and \<open>endTime\<close> are the two
  readings of \<open>Date.now()\<close>.
\<close>

definition evaluate_try ::
  "FeatureFlag option \<Rightarrow> EvaluationContext option \<Rightarrow> int \<Rightarrow> int \<Rightarrow> error + EvaluationResult" where
  "evaluate_try featureFlag context startTime endTime =
     (case log_fields featureFlag context of Inl e \<Rightarrow> Inl e
      | Inr u \<Rightarrow>
     (case validateEvaluationInputs featureFlag context of Inl e \<Rightarrow> Inl e
      | Inr u \<Rightarrow>
     (case featureFlag of None \<Rightarrow> Inl TypeError
      | Some f \<Rightarrow>
     (case evaluateRules (flag_rules f) context of Inl e \<Rightarrow> Inl e
      | Inr m \<Rightarrow>
     (case m of
        Some r \<Rightarrow>
          Inr \<lparr>enabled = True, matchedRule = Some r, fallbackToDefault = False,
               evaluationTime = endTime - startTime\<rparr>
      | None \<Rightarrow>
          Inr \<lparr>enabled = flag_enabled f, matchedRule = None, fallbackToDefault = True,
               evaluationTime = endTime - startTime\<rparr>)))))"

text \<open>
  \<open>evaluate\<close>: the \<open>try\<close> block, and the \<open>catch\<close> handler, which builds its own log entry
  and reads \<open>featureFlag.enabled\<close> for the fallback result. What the handler raises reaches
  the caller.
\<close>

definition evaluate ::
  "FeatureFlag option \<Rightarrow> EvaluationContext option \<Rightarrow> int \<Rightarrow> int \<Rightarrow> error + EvaluationResult" where
  "evaluate featureFlag context startTime endTime =
     (case evaluate_try featureFlag context startTime endTime of
        Inr result \<Rightarrow> Inr result
      | Inl error \<Rightarrow>
          (case log_fields featureFlag context of Inl e \<Rightarrow> Inl e
           | Inr u \<Rightarrow>
          (case featureFlag of None \<Rightarrow> Inl TypeError
           | Some f \<Rightarrow>
               Inr \<lparr>enabled = flag_enabled f, matchedRule = None, fallbackToDefault = True,
                    evaluationTime = endTime - startTime\<rparr>)))"

section \<open>The repository\<close>

text \<open>
  \<open>this.flags\<close> is a JavaScript \<open>Map\<close> from strings to FeatureFlag objects. A \<open>Map\<close>
  keeps its entries in insertion order: \<open>set\<close> on a key that is present replaces the value
  in place, on a new key it appends; \<open>values()\<close> and \<open>entries()\<close> follow that order.
\<close>

fun Map_get :: "(string \<times> 'v) list \<Rightarrow> string \<Rightarrow> 'v option" where
  "Map_get [] k = None"
| "Map_get (e # m) k = (if fst e = k then Some (snd e) else Map_get m k)"

definition Map_has :: "(string \<times> 'v) list \<Rightarrow> string \<Rightarrow> bool" where
  "Map_has m k = (Map_get m k \<noteq> None)"

fun Map_set :: "(string \<times> 'v) list \<Rightarrow> string \<Rightarrow> 'v \<Rightarrow> (string \<times> 'v) list" where
  "Map_set [] k v = [(k, v)]"
| "Map_set (e # m) k v = (if fst e = k then (k, v) # m else e # Map_set m k v)"

definition Map_delete :: "(string \<times> 'v) list \<Rightarrow> string \<Rightarrow> (string \<times> 'v) list" where
  "Map_delete m k = filter (\<lambda>e. fst e \<noteq> k) m"

definition Map_values :: "(string \<times> 'v) list \<Rightarrow> 'v list" where
  "Map_values m = map snd m"

text \<open>
  The values of the map are references: both entries of a flag hold the same object,
  and \<open>update\<close> mutates that object in place. A repository state is therefore the map
  together with the FeatureFlag objects the references denote.
\<close>

type_synonym ref = nat

record repository =
  objects :: "ref \<Rightarrow> FeatureFlag"
  flags :: "(string \<times> ref) list"

definition new_repository :: "(ref \<Rightarrow> FeatureFlag) \<Rightarrow> repository" where
  "new_repository objs = \<lparr>objects = objs, flags = []\<rparr>"

definition create :: "repository \<Rightarrow> ref \<Rightarrow> error + (ref \<times> repository)" where
  "create s featureFlag =
     (let f = objects s featureFlag in
      if Map_has (flags s) (flag_id f) then
        Inl (Error (''Feature flag with ID '' @ flag_id f @ '' already exists''))
      else if Map_has (flags s) (flag_name f) then
        Inl (Error (''Feature flag with name '' @ [CHR 0x27] @ flag_name f @ [CHR 0x27] @
                    '' already exists''))
      else
        Inr (featureFlag,
             s\<lparr>flags := Map_set (Map_set (flags s) (flag_id f) featureFlag)
                              (flag_name f) featureFlag\<rparr>))"

text \<open>
  A stored reference is never falsy, so \<open>this.flags.get(id) || null\<close> is the lookup.
  The parameter \<open>id\<close> of the source is written \<open>ident\<close>.
\<close>

definition findById :: "repository \<Rightarrow> string \<Rightarrow> ref option" where
  "findById s ident = Map_get (flags s) ident"

definition findByName :: "repository \<Rightarrow> string \<Rightarrow> ref option" where
  "findByName s name = Map_get (flags s) name"

text \<open>
  The \<open>updates\<close> object: any subset of the fields of a flag (\<open>updatedAt\<close> is overwritten
  right after \<open>Object.assign\<close>, so an update of it is never seen).
\<close>

record updates =
  u_id :: "string option"
  u_name :: "string option"
  u_description :: "string option"
  u_enabled :: "bool option"
  u_rules :: "rule list option"
  u_createdAt :: "int option"

definition Object_assign :: "FeatureFlag \<Rightarrow> updates \<Rightarrow> FeatureFlag" where
  "Object_assign f u =
     f\<lparr>flag_id := (case u_id u of None \<Rightarrow> flag_id f | Some x \<Rightarrow> x),
       flag_name := (case u_name u of None \<Rightarrow> flag_name f | Some x \<Rightarrow> x),
       flag_description := (case u_description u of None \<Rightarrow> flag_description f | Some x \<Rightarrow> x),
       flag_enabled := (case u_enabled u of None \<Rightarrow> flag_enabled f | Some x \<Rightarrow> x),
       flag_rules := (case u_rules u of None \<Rightarrow> flag_rules f | Some x \<Rightarrow> x),
       flag_createdAt := (case u_createdAt u of None \<Rightarrow> flag_createdAt f | Some x \<Rightarrow> x)\<rparr>"

text \<open>
  \<open>update\<close>; \<open>now\<close> is \<open>new Date()\<close>. The name entry is retargeted only when
  \<open>updates.name\<close> is truthy and differs from the current name.
\<close>

definition update ::
  "repository \<Rightarrow> string \<Rightarrow> updates \<Rightarrow> int \<Rightarrow> error + (ref option \<times> repository)" where
  "update s ident updates now =
     (case Map_get (flags s) ident of
        None \<Rightarrow> Inr (None, s)
      | Some existingFlag \<Rightarrow>
          (let f = objects s existingFlag;
               assigned = (Object_assign f updates)\<lparr>flag_updatedAt := now\<rparr>
           in case u_name updates of
                None \<Rightarrow>
                  Inr (Some existingFlag, s\<lparr>objects := (objects s)(existingFlag := assigned)\<rparr>)
              | Some name \<Rightarrow>
                  if truthy name \<and> name \<noteq> flag_name f then
                    if Map_has (flags s) name then
                      Inl (Error (''Feature flag with name '' @ [CHR 0x27] @ name @ [CHR 0x27] @
                                  '' already exists''))
                    else
                      Inr (Some existingFlag,
                           \<lparr>objects = (objects s)(existingFlag := assigned),
                            flags = Map_set (Map_delete (flags s) (flag_name f)) name existingFlag\<rparr>)
                  else
                    Inr (Some existingFlag, s\<lparr>objects := (objects s)(existingFlag := assigned)\<rparr>)))"

definition delete :: "repository \<Rightarrow> string \<Rightarrow> bool \<times> repository" where
  "delete s ident =
     (case Map_get (flags s) ident of
        None \<Rightarrow> (False, s)
      | Some flag \<Rightarrow>
          (True, s\<lparr>flags := Map_delete (Map_delete (flags s) ident) (flag_name (objects s flag))\<rparr>))"

text \<open>
  Strings for the search filter. \<open>toLowerCase\<close> on code units below 256: the capital
  letters are A to Z (65 to 90) and the Latin-1 capitals 192 to 222 without the
  multiplication sign 215; the small letter is 32 above its capital.
  \<open>haystack.includes(needle)\<close> is the substring test.
\<close>

definition toLowerCase_unit :: "char \<Rightarrow> char" where
  "toLowerCase_unit c =
     (let n = (of_char c :: nat)
      in if 65 \<le> n \<and> n \<le> 90 then char_of (n + 32)
         else if 192 \<le> n \<and> n \<le> 222 \<and> n \<noteq> 215 then char_of (n + 32)
         else c)"

definition toLowerCase :: "string \<Rightarrow> string" where
  "toLowerCase str = map toLowerCase_unit str"

fun startsWith :: "string \<Rightarrow> string \<Rightarrow> bool" where
  "startsWith str [] = True"
| "startsWith [] (c # cs) = False"
| "startsWith (d # ds) (c # cs) = (d = c \<and> startsWith ds cs)"

fun String_includes :: "string \<Rightarrow> string \<Rightarrow> bool" where
  "String_includes [] needle = (needle = [])"
| "String_includes (d # ds) needle = (startsWith (d # ds) needle \<or> String_includes ds needle)"

text \<open>
  \<open>array.slice(start, end)\<close> for integer arguments: a negative index counts from the
  end, and both are clipped to the array.
\<close>

definition Array_slice :: "'a list \<Rightarrow> int \<Rightarrow> int \<Rightarrow> 'a list" where
  "Array_slice xs start fin =
     (let len = int (length xs);
          k = (if start < 0 then max (len + start) 0 else min start len);
          final = (if fin < 0 then max (len + fin) 0 else min fin len)
      in take (nat (final - k)) (drop (nat k) xs))"

record list_options =
  opt_limit :: "int option"
  opt_offset :: "int option"
  opt_search :: "string option"

definition matches_search :: "string \<Rightarrow> FeatureFlag \<Rightarrow> bool" where
  "matches_search searchLower flag =
     (String_includes (toLowerCase (flag_name flag)) searchLower \<or>
      String_includes (toLowerCase (flag_description flag)) searchLower)"

text \<open>\<open>list\<close>: every value of the map that looks like a flag, filtered, then sliced.\<close>

definition list_flags :: "repository \<Rightarrow> list_options \<Rightarrow> ref list" where
  "list_flags s options =
     (let limit = (case opt_limit options of None \<Rightarrow> 100 | Some l \<Rightarrow> l);
          offset = (case opt_offset options of None \<Rightarrow> 0 | Some k \<Rightarrow> k);
          all_flags = filter (\<lambda>flag. truthy (flag_id (objects s flag)) \<and>
                                     truthy (flag_name (objects s flag)))
                        (Map_values (flags s));
          found = (if truthy_opt (opt_search options)
                   then filter (\<lambda>flag. matches_search (toLowerCase (String_of (opt_search options)))
                                         (objects s flag)) all_flags
                   else all_flags);
          startIndex = offset;
          endIndex = startIndex + limit
      in Array_slice found startIndex endIndex)"

text \<open>\<open>count\<close>: only the entries whose key is the id of their flag, filtered.\<close>

definition count :: "repository \<Rightarrow> list_options \<Rightarrow> nat" where
  "count s options =
     (let all_flags = map snd (filter (\<lambda>e. truthy (flag_id (objects s (snd e))) \<and>
                                          truthy (flag_name (objects s (snd e))) \<and>
                                          flag_id (objects s (snd e)) = fst e)
                                 (flags s));
          found = (if truthy_opt (opt_search options)
                   then filter (\<lambda>flag. matches_search (toLowerCase (String_of (opt_search options)))
                                         (objects s flag)) all_flags
                   else all_flags)
      in length found)"

definition exists_flag :: "repository \<Rightarrow> string \<Rightarrow> bool" where
  "exists_flag s ident = Map_has (flags s) ident"

text \<open>
  The number of distinct flag objects that \<open>list\<close> would show before pagination: the
  flags that pass its filter, each counted once. This is the count the specification
  asks of \<open>count\<close>; it is not taken from the source.
\<close>

definition logical_flag_count :: "repository \<Rightarrow> list_options \<Rightarrow> nat" where
  "logical_flag_count s options =
     length (remdups (list_flags s (options\<lparr>opt_limit := Some (int (length (flags s))),
                                           opt_offset := Some 0\<rparr>)))"

definition in_percentage_range :: "number \<Rightarrow> bool" where
  "in_percentage_range p = (num_le (Finite 0) p \<and> num_le p (Finite 100))"

section \<open>Example objects\<close>

definition example_context :: EvaluationContext where
  "example_context = \<lparr>userId = Some ''user1'', tenantId = Some ''company1''\<rparr>"

definition example_flag :: FeatureFlag where
  "example_flag =
     \<lparr>flag_id = ''id-1'', flag_name = ''f1'', flag_description = ''first'', flag_enabled = False,
      flag_rules = [TenantRule ''r1'' True 0 [''company2''], Rule ''r2'' ''custom'' True 0,
                    UserRule ''r3'' True 0 [''user1''], PercentageRule ''r4'' True 0 (Finite 100)],
      flag_createdAt = 0, flag_updatedAt = 0\<rparr>"

definition fallback_flag :: FeatureFlag where
  "fallback_flag =
     \<lparr>flag_id = ''id-2'', flag_name = ''f2'', flag_description = [], flag_enabled = True,
      flag_rules = [TenantRule ''r1'' True 0 [''company2''], Rule ''r2'' ''custom'' True 0],
      flag_createdAt = 0, flag_updatedAt = 0\<rparr>"

definition coinciding_flag :: FeatureFlag where
  "coinciding_flag =
     \<lparr>flag_id = ''a'', flag_name = ''a'', flag_description = [], flag_enabled = True,
      flag_rules = [], flag_createdAt = 0, flag_updatedAt = 0\<rparr>"

text \<open>Object 1 is the flag whose id and name coincide; every other object is the example flag.\<close>

definition example_objects :: "ref \<Rightarrow> FeatureFlag" where
  "example_objects = (\<lambda>r. example_flag)(1 := coinciding_flag)"

definition no_updates :: updates where
  "no_updates = \<lparr>u_id = None, u_name = None, u_description = None, u_enabled = None,
                 u_rules = None, u_createdAt = None\<rparr>"

definition no_options :: list_options where
  "no_options = \<lparr>opt_limit = None, opt_offset = None, opt_search = None\<rparr>"

text \<open>The repository after \<open>create\<close> of object 0 on an empty repository.\<close>

definition stored_repository :: repository where
  "stored_repository = \<lparr>objects = example_objects, flags = [(''id-1'', 0), (''f1'', 0)]\<rparr>"

text \<open>The same repository after \<open>update('id-1', {name: 'f9'})\<close> at time 5.\<close>

definition retargeted_repository :: repository where
  "retargeted_repository =
     \<lparr>objects = example_objects(0 := example_flag\<lparr>flag_name := ''f9'', flag_updatedAt := 5\<rparr>),
      flags = [(''id-1'', 0), (''f9'', 0)]\<rparr>"

text \<open>And after \<open>update('id-1', {name: ''})\<close> at time 5 instead.\<close>

definition unnamed_repository :: repository where
  "unnamed_repository =
     \<lparr>objects = example_objects(0 := example_flag\<lparr>flag_name := [], flag_updatedAt := 5\<rparr>),
      flags = [(''id-1'', 0), (''f1'', 0)]\<rparr>"

text \<open>The repository after \<open>create\<close> of object 0 and then \<open>delete('f1')\<close>.\<close>

definition dangling_repository :: repository where
  "dangling_repository = \<lparr>objects = example_objects, flags = [(''id-1'', 0)]\<rparr>"

text \<open>
  The repository after \<open>create\<close> of object 1, whose id and name are both \<open>a\<close>, and then
  after \<open>update('a', {name: 'b'})\<close> at time 5.
\<close>

definition coinciding_repository :: repository where
  "coinciding_repository = \<lparr>objects = example_objects, flags = [(''a'', 1)]\<rparr>"

definition renamed_repository :: repository where
  "renamed_repository =
     \<lparr>objects = example_objects(1 := coinciding_flag\<lparr>flag_name := ''b'', flag_updatedAt := 5\<rparr>),
      flags = [(''b'', 1)]\<rparr>"

section \<open>Properties of the rules\<close>

text \<open>
  Claim C7. Monotonicity of percentage rollout: for a fixed context, and two enabled
  percentage rules whose percentages \<open>p1 < p2\<close> both lie in the interval from 0 to 100,
  if the rule with \<open>p1\<close> matches then the rule with \<open>p2\<close> matches as well.
\<close>

theorem percentage_rule_monotone:
  assumes "num_lt p1 p2"
    and "in_percentage_range p1" and "in_percentage_range p2"
    and "evaluate_rule (PercentageRule i1 True t1 p1) (Some c) = Inr True"
  shows "evaluate_rule (PercentageRule i2 True t2 p2) (Some c) = Inr True"
  using assms
  by (cases p1; cases p2)
     (auto simp: in_percentage_range_def num_le_def Let_def split: if_splits)

theorem percentage_rule_monotone_witness:
  "num_lt (Finite 50) (Finite 75) \<and>
   in_percentage_range (Finite 50) \<and> in_percentage_range (Finite 75) \<and>
   evaluate_rule (PercentageRule ''p50'' True 0 (Finite 50)) (Some example_context) = Inr True \<and>
   evaluate_rule (PercentageRule ''p75'' True 0 (Finite 75)) (Some example_context) = Inr True"
proof -
  have lt: "num_lt (Finite 50) (Finite 75)"
    by simp
  have r1: "in_percentage_range (Finite 50)" and r2: "in_percentage_range (Finite 75)"
    by (simp_all add: in_percentage_range_def num_le_def)
  have m: "evaluate_rule (PercentageRule ''p50'' True 0 (Finite 50)) (Some example_context) = Inr True"
    by (simp add: example_context_def String_of_def PercentageRule_hash_def)
  show ?thesis
    using lt r1 r2 m percentage_rule_monotone [OF lt r1 r2 m, of "''p75''" 0]
    by simp
qed

text \<open>
  What the constructor does clamp: every input that \<open>ToNumber\<close> converts to a number
  other than \<open>NaN\<close> is stored as 0 when it is below 0, as 100 when it is above 100, and
  unchanged otherwise; a missing input is stored as 0.
\<close>

lemma percentage_clamped:
  assumes "ToNumber StringToNumber v = Inr p" and "p \<noteq> NaN" and "v \<noteq> Primitive JSUndefined"
  shows "new_PercentageRule StringToNumber i v en t =
     Inr (PercentageRule i en t
            (if num_lt p (Finite 0) then Finite 0
             else if num_lt (Finite 100) p then Finite 100 else p))"
  using assms
  by (cases p) (auto simp: new_PercentageRule_def Math_min_def Math_max_def)

lemma percentage_clamped_in_range:
  assumes "p \<noteq> NaN"
  shows "in_percentage_range
     (if num_lt p (Finite 0) then Finite 0 else if num_lt (Finite 100) p then Finite 100 else p)"
  using assms by (cases p) (auto simp: in_percentage_range_def num_le_def)

lemma percentage_default:
  "new_PercentageRule StringToNumber i (Primitive JSUndefined) en t =
     Inr (PercentageRule i en t (Finite 0))"
  by (simp add: new_PercentageRule_def Math_min_def Math_max_def)

text \<open>
  Claim C8 says that for every percentage input construction never errors and the stored
  percentage lies in the interval from 0 to 100. The code misses two cases. For the
  number \<open>NaN\<close>, \<open>Math.min\<close> and \<open>Math.max\<close> hand it through and the stored percentage is
  \<open>NaN\<close>, which is in no interval. For a BigInt, \<open>Math.min\<close> throws \<open>TypeError\<close> and
  the construction fails.
\<close>

theorem percentage_NaN_stored:
  "new_PercentageRule StringToNumber ''r'' (Primitive (JSNumber NaN)) True 0 =
     Inr (PercentageRule ''r'' True 0 NaN) \<and>
   \<not> in_percentage_range NaN \<and>
   new_PercentageRule StringToNumber ''r'' (Primitive (JSBigInt 150)) True 0 = Inl TypeError"
  by (simp add: new_PercentageRule_def Math_min_def Math_max_def in_percentage_range_def
      num_le_def)

text \<open>
  Claim C9. A tenant, user or percentage rule whose \<open>enabled\<close> field is false returns
  false for every context (a missing context included), whatever its tenant ids, user ids
  or percentage.
\<close>

theorem disabled_rule_never_matches:
  "evaluate_rule (TenantRule i False t tids) context = Inr False \<and>
   evaluate_rule (UserRule i False t uids) context = Inr False \<and>
   evaluate_rule (PercentageRule i False t p) context = Inr False"
  by simp

theorem disabled_rule_never_matches_witness:
  "evaluate_rule (TenantRule ''r1'' False 0 [''company1'']) (Some example_context) = Inr False \<and>
   evaluate_rule (UserRule ''r1'' False 0 [''user1'']) (Some example_context) = Inr False \<and>
   evaluate_rule (PercentageRule ''r1'' False 0 (Finite 100)) (Some example_context) = Inr False"
  using disabled_rule_never_matches [of "''r1''" 0 "[''company1'']" "Some example_context"
      "[''user1'']" "Finite 100"]
  by simp

section \<open>Properties of the evaluation engine\<close>

lemma evaluateRules_skip_prefix:
  "list_all (\<lambda>q. evaluate_rule q (Some c) \<noteq> Inr True) pre \<Longrightarrow>
   evaluateRules (pre @ rs) (Some c) = evaluateRules rs (Some c)"
  by (induction pre) (auto split: sum.splits)

lemma evaluateRules_no_match:
  "list_all (\<lambda>q. evaluate_rule q (Some c) \<noteq> Inr True) rs \<Longrightarrow>
   evaluateRules rs (Some c) = Inr None"
  by (induction rs) (auto split: sum.splits)

lemma evaluateRules_first_match:
  assumes "list_all (\<lambda>q. evaluate_rule q (Some c) \<noteq> Inr True) pre"
    and "evaluate_rule r (Some c) = Inr True"
  shows "evaluateRules (pre @ r # post) (Some c) = Inr (Some r)"
  using assms by (simp add: evaluateRules_skip_prefix)

text \<open>With a context present, the scan of the rules always returns.\<close>

lemma evaluateRules_returns:
  "\<exists>m. evaluateRules rs (Some c) = Inr m"
  by (induction rs) (auto split: sum.splits)

lemma evaluate_valid_context:
  assumes "truthy_opt (userId c)" and "truthy_opt (tenantId c)"
  shows "evaluate (Some f) (Some c) t0 t1 =
     (case evaluateRules (flag_rules f) (Some c) of
        Inr (Some r) \<Rightarrow>
          Inr \<lparr>enabled = True, matchedRule = Some r, fallbackToDefault = False,
               evaluationTime = t1 - t0\<rparr>
      | _ \<Rightarrow>
          Inr \<lparr>enabled = flag_enabled f, matchedRule = None, fallbackToDefault = True,
               evaluationTime = t1 - t0\<rparr>)"
  using assms
  by (simp add: evaluate_def evaluate_try_def log_fields_def validateEvaluationInputs_def
      split: sum.splits option.splits)

lemma evaluate_depends_on_scan:
  assumes "truthy_opt (userId c)" and "truthy_opt (tenantId c)"
    and "evaluateRules (flag_rules f) (Some c) = evaluateRules (flag_rules g) (Some c)"
    and "flag_enabled f = flag_enabled g"
  shows "evaluate (Some f) (Some c) t0 t1 = evaluate (Some g) (Some c) t0 t1"
  using assms by (simp add: evaluate_valid_context split: sum.splits option.splits)

text \<open>
  What does hold of the top-level call: when the flag and the context are both objects,
  \<open>evaluate\<close> returns a result, and when validation fails that result is the safe one.
\<close>

lemma evaluate_present_returns:
  "\<exists>res. evaluate (Some f) (Some c) t0 t1 = Inr res"
  by (simp add: evaluate_def evaluate_try_def log_fields_def validateEvaluationInputs_def
      split: sum.splits option.splits)

lemma evaluate_validation_failure:
  assumes "validateEvaluationInputs (Some f) (Some c) = Inl e"
  shows "evaluate (Some f) (Some c) t0 t1 =
     Inr \<lparr>enabled = flag_enabled f, matchedRule = None, fallbackToDefault = True,
          evaluationTime = t1 - t0\<rparr>"
  using assms
  by (simp add: evaluate_def evaluate_try_def log_fields_def split: sum.splits option.splits)

text \<open>
  Claim C3 says that \<open>evaluate\<close> returns a result for every flag and every context, a
  \<open>null\<close> context included. The code does not: with a flag and the context \<open>null\<close>, the
  first log entry of the \<open>try\<close> block raises \<open>TypeError\<close>, the handler catches it, and
  the handler's own log entry reads \<open>context.userId\<close> again; that second \<open>TypeError\<close>
  reaches the caller. The same happens for a \<open>null\<close> flag.
\<close>

theorem evaluate_null_context_throws:
  "evaluate (Some example_flag) None 10 12 = Inl TypeError \<and>
   evaluate None (Some example_context) 10 12 = Inl TypeError"
  by (simp add: evaluate_def evaluate_try_def log_fields_def)

text \<open>
  Claim C4. With a context whose \<open>userId\<close> and \<open>tenantId\<close> are non-empty, \<open>evaluate\<close>
  scans the rules in stored order. If \<open>r\<close> is the first rule whose \<open>evaluate\<close> returns
  true, the result is enabled, with \<open>r\<close> as the matched rule and no fallback, and it is the
  same result whatever rules \<open>post'\<close> follow \<open>r\<close>: no later rule is consulted. If no rule
  returns true (the empty list included), the result is the flag's own \<open>enabled\<close>, no
  matched rule, and fallback.
\<close>

theorem evaluate_first_match_or_default:
  assumes "truthy_opt (userId c)" and "truthy_opt (tenantId c)"
  shows "(flag_rules f = pre @ r # post \<and>
          list_all (\<lambda>q. evaluate_rule q (Some c) \<noteq> Inr True) pre \<and>
          evaluate_rule r (Some c) = Inr True \<longrightarrow>
            evaluate (Some f) (Some c) t0 t1 =
              Inr \<lparr>enabled = True, matchedRule = Some r, fallbackToDefault = False,
                   evaluationTime = t1 - t0\<rparr> \<and>
            evaluate (Some (f\<lparr>flag_rules := pre @ r # post'\<rparr>)) (Some c) t0 t1 =
              evaluate (Some f) (Some c) t0 t1) \<and>
         (list_all (\<lambda>q. evaluate_rule q (Some c) \<noteq> Inr True) (flag_rules f) \<longrightarrow>
            evaluate (Some f) (Some c) t0 t1 =
              Inr \<lparr>enabled = flag_enabled f, matchedRule = None, fallbackToDefault = True,
                   evaluationTime = t1 - t0\<rparr>)"
  using assms
  by (auto simp: evaluate_valid_context evaluateRules_first_match evaluateRules_no_match)

theorem evaluate_first_match_or_default_witness:
  "truthy_opt (userId example_context) \<and> truthy_opt (tenantId example_context) \<and>
   flag_rules example_flag =
     [TenantRule ''r1'' True 0 [''company2''], Rule ''r2'' ''custom'' True 0] @
     UserRule ''r3'' True 0 [''user1''] # [PercentageRule ''r4'' True 0 (Finite 100)] \<and>
   evaluate (Some example_flag) (Some example_context) 10 12 =
     Inr \<lparr>enabled = True, matchedRule = Some (UserRule ''r3'' True 0 [''user1'']),
          fallbackToDefault = False, evaluationTime = 2\<rparr> \<and>
   evaluate (Some (example_flag\<lparr>flag_rules :=
       [TenantRule ''r1'' True 0 [''company2''], Rule ''r2'' ''custom'' True 0] @
       UserRule ''r3'' True 0 [''user1''] # []\<rparr>)) (Some example_context) 10 12 =
     evaluate (Some example_flag) (Some example_context) 10 12 \<and>
   evaluate (Some fallback_flag) (Some example_context) 10 12 =
     Inr \<lparr>enabled = True, matchedRule = None, fallbackToDefault = True, evaluationTime = 2\<rparr>"
proof -
  have u: "truthy_opt (userId example_context)" and t: "truthy_opt (tenantId example_context)"
    by (simp_all add: example_context_def truthy_opt_def truthy_def)
  have rules: "flag_rules example_flag =
      [TenantRule ''r1'' True 0 [''company2''], Rule ''r2'' ''custom'' True 0] @
      UserRule ''r3'' True 0 [''user1''] # [PercentageRule ''r4'' True 0 (Finite 100)]"
    by (simp add: example_flag_def)
  have pre: "list_all (\<lambda>q. evaluate_rule q (Some example_context) \<noteq> Inr True)
      [TenantRule ''r1'' True 0 [''company2''], Rule ''r2'' ''custom'' True 0]"
    by (simp add: example_context_def Array_includes_def)
  have hit: "evaluate_rule (UserRule ''r3'' True 0 [''user1'']) (Some example_context) = Inr True"
    by (simp add: example_context_def Array_includes_def)
  have none: "list_all (\<lambda>q. evaluate_rule q (Some example_context) \<noteq> Inr True)
      (flag_rules fallback_flag)"
    by (simp add: fallback_flag_def example_context_def Array_includes_def)
  have en: "flag_enabled fallback_flag = True"
    by (simp add: fallback_flag_def)
  show ?thesis
    using u t rules pre hit none en
      evaluate_first_match_or_default [OF u t, of example_flag
        "[TenantRule ''r1'' True 0 [''company2''], Rule ''r2'' ''custom'' True 0]"
        "UserRule ''r3'' True 0 [''user1'']" "[PercentageRule ''r4'' True 0 (Finite 100)]"
        10 12 "[]"]
      evaluate_first_match_or_default [OF u t, of fallback_flag "[]" "Rule [] [] True 0" "[]"
        10 12 "[]"]
    by simp
qed

text \<open>
  Claim C5. If the \<open>evaluate\<close> of a rule \<open>r\<close> of the flag throws, the scan goes on with the
  rule after \<open>r\<close>, and the flag evaluates as it would with \<open>r\<close> left out of its rules; in
  particular, when no rule before \<open>r\<close> matches and \<open>m\<close> is the first matching rule after
  \<open>r\<close>, the result is enabled by \<open>m\<close>.
\<close>

theorem faulty_rule_is_skipped:
  assumes "truthy_opt (userId c)" and "truthy_opt (tenantId c)"
    and "evaluate_rule r (Some c) = Inl e"
    and "flag_rules f = pre @ r # post"
  shows "evaluateRules (r # post) (Some c) = evaluateRules post (Some c) \<and>
         evaluate (Some f) (Some c) t0 t1 =
           evaluate (Some (f\<lparr>flag_rules := pre @ post\<rparr>)) (Some c) t0 t1 \<and>
         (list_all (\<lambda>q. evaluate_rule q (Some c) \<noteq> Inr True) pre \<and>
          post = mid @ m # rest \<and>
          list_all (\<lambda>q. evaluate_rule q (Some c) \<noteq> Inr True) mid \<and>
          evaluate_rule m (Some c) = Inr True \<longrightarrow>
            evaluate (Some f) (Some c) t0 t1 =
              Inr \<lparr>enabled = True, matchedRule = Some m, fallbackToDefault = False,
                   evaluationTime = t1 - t0\<rparr>)"
proof -
  have skip: "evaluateRules (r # post) (Some c) = evaluateRules post (Some c)"
    using assms(3) by simp
  have same: "evaluateRules (pre @ r # post) (Some c) = evaluateRules (pre @ post) (Some c)"
  proof (induction pre)
    case Nil
    show ?case using skip by simp
  next
    case (Cons q qs)
    then show ?case by (simp split: sum.splits)
  qed
  have later: "evaluateRules (pre @ r # mid @ m # rest) (Some c) = Inr (Some m)"
    if "list_all (\<lambda>q. evaluate_rule q (Some c) \<noteq> Inr True) pre"
      and "list_all (\<lambda>q. evaluate_rule q (Some c) \<noteq> Inr True) mid"
      and "evaluate_rule m (Some c) = Inr True"
  proof -
    have "list_all (\<lambda>q. evaluate_rule q (Some c) \<noteq> Inr True) (pre @ r # mid)"
      using that assms(3) by simp
    then have "evaluateRules ((pre @ r # mid) @ m # rest) (Some c) = Inr (Some m)"
      using that(3) by (rule evaluateRules_first_match)
    then show ?thesis by simp
  qed
  have removed: "evaluate (Some f) (Some c) t0 t1 =
      evaluate (Some (f\<lparr>flag_rules := pre @ post\<rparr>)) (Some c) t0 t1"
    by (rule evaluate_depends_on_scan [OF assms(1,2)]) (simp_all add: assms(4) same)
  have decided: "evaluate (Some f) (Some c) t0 t1 =
      Inr \<lparr>enabled = True, matchedRule = Some m, fallbackToDefault = False,
           evaluationTime = t1 - t0\<rparr>"
    if "list_all (\<lambda>q. evaluate_rule q (Some c) \<noteq> Inr True) pre"
      and "post = mid @ m # rest"
      and "list_all (\<lambda>q. evaluate_rule q (Some c) \<noteq> Inr True) mid"
      and "evaluate_rule m (Some c) = Inr True"
    using later [OF that(1) that(3) that(4)] assms(1,2)
    by (simp add: evaluate_valid_context assms(4) that(2))
  show ?thesis
    using skip removed decided by blast
qed

theorem faulty_rule_is_skipped_witness:
  "truthy_opt (userId example_context) \<and> truthy_opt (tenantId example_context) \<and>
   evaluate_rule (Rule ''r2'' ''custom'' True 0) (Some example_context) =
     Inl (Error ''evaluate() must be implemented by subclasses'') \<and>
   flag_rules example_flag =
     [TenantRule ''r1'' True 0 [''company2'']] @ Rule ''r2'' ''custom'' True 0 #
     [UserRule ''r3'' True 0 [''user1''], PercentageRule ''r4'' True 0 (Finite 100)] \<and>
   evaluate (Some example_flag) (Some example_context) 10 12 =
     evaluate (Some (example_flag\<lparr>flag_rules := [TenantRule ''r1'' True 0 [''company2'']] @
       [UserRule ''r3'' True 0 [''user1''], PercentageRule ''r4'' True 0 (Finite 100)]\<rparr>))
       (Some example_context) 10 12 \<and>
   evaluate (Some example_flag) (Some example_context) 10 12 =
     Inr \<lparr>enabled = True, matchedRule = Some (UserRule ''r3'' True 0 [''user1'']),
          fallbackToDefault = False, evaluationTime = 2\<rparr>"
proof -
  have u: "truthy_opt (userId example_context)" and t: "truthy_opt (tenantId example_context)"
    by (simp_all add: example_context_def truthy_opt_def truthy_def)
  have thrown: "evaluate_rule (Rule ''r2'' ''custom'' True 0) (Some example_context) =
      Inl (Error ''evaluate() must be implemented by subclasses'')"
    by simp
  have rules: "flag_rules example_flag =
      [TenantRule ''r1'' True 0 [''company2'']] @ Rule ''r2'' ''custom'' True 0 #
      [UserRule ''r3'' True 0 [''user1''], PercentageRule ''r4'' True 0 (Finite 100)]"
    by (simp add: example_flag_def)
  have pre: "list_all (\<lambda>q. evaluate_rule q (Some example_context) \<noteq> Inr True)
      [TenantRule ''r1'' True 0 [''company2'']]"
    by (simp add: example_context_def Array_includes_def)
  have split: "[UserRule ''r3'' True 0 [''user1''], PercentageRule ''r4'' True 0 (Finite 100)] =
      [] @ UserRule ''r3'' True 0 [''user1''] # [PercentageRule ''r4'' True 0 (Finite 100)]"
    by simp
  have hit: "evaluate_rule (UserRule ''r3'' True 0 [''user1'']) (Some example_context) = Inr True"
    by (simp add: example_context_def Array_includes_def)
  have mid: "list_all (\<lambda>q. evaluate_rule q (Some example_context) \<noteq> Inr True) []"
    by simp
  note skipped = faulty_rule_is_skipped [OF u t thrown rules, of 10 12 "[]"
      "UserRule ''r3'' True 0 [''user1'']" "[PercentageRule ''r4'' True 0 (Finite 100)]"]
  have removed: "evaluate (Some example_flag) (Some example_context) 10 12 =
      evaluate (Some (example_flag\<lparr>flag_rules := [TenantRule ''r1'' True 0 [''company2'']] @
        [UserRule ''r3'' True 0 [''user1''], PercentageRule ''r4'' True 0 (Finite 100)]\<rparr>))
        (Some example_context) 10 12"
    using skipped by blast
  have "evaluate (Some example_flag) (Some example_context) 10 12 =
      Inr \<lparr>enabled = True, matchedRule = Some (UserRule ''r3'' True 0 [''user1'']),
           fallbackToDefault = False, evaluationTime = 12 - 10\<rparr>"
    using skipped pre split mid hit by blast
  then have decided: "evaluate (Some example_flag) (Some example_context) 10 12 =
      Inr \<lparr>enabled = True, matchedRule = Some (UserRule ''r3'' True 0 [''user1'']),
           fallbackToDefault = False, evaluationTime = 2\<rparr>"
    by simp
  show ?thesis
    using u t thrown rules removed decided by blast
qed

section \<open>Properties of the repository\<close>

lemma Map_get_set: "Map_get (Map_set m k v) k' = (if k' = k then Some v else Map_get m k')"
  by (induction m) auto

lemma Map_get_delete: "Map_get (Map_delete m k) k' = (if k' = k then None else Map_get m k')"
  by (induction m) (auto simp: Map_delete_def)

lemma create_stores_both_keys:
  assumes "create s r = Inr (r', s')"
  shows "r' = r \<and> objects s' = objects s \<and>
         Map_get (flags s') (flag_id (objects s r)) = Some r \<and>
         Map_get (flags s') (flag_name (objects s r)) = Some r"
  using assms
  by (cases "flag_name (objects s r) = flag_id (objects s r)")
     (auto simp: create_def Let_def Map_get_set split: if_splits)

lemma update_retargets_name:
  assumes "update s k u now = Inr (Some r, s')"
    and "u_name u = Some n" and "truthy n" and "n \<noteq> flag_name (objects s r)"
  shows "Map_get (flags s') (flag_name (objects s r)) = None \<and>
         Map_get (flags s') n = Some r \<and> flag_name (objects s' r) = n"
  using assms
  by (auto simp: update_def Let_def Object_assign_def Map_get_set Map_get_delete
      split: option.splits if_splits)

lemma delete_removes_both_keys:
  assumes "delete s k = (True, s')" and "Map_get (flags s) k = Some r"
  shows "Map_get (flags s') k = None \<and> Map_get (flags s') (flag_name (objects s r)) = None"
  using assms
  by (auto simp: delete_def Map_get_delete split: option.splits)

lemma create_example: "create (new_repository example_objects) 0 = Inr (0, stored_repository)"
  by (simp add: create_def new_repository_def example_objects_def example_flag_def
      stored_repository_def Map_has_def)

lemma update_example:
  "update stored_repository ''id-1'' (no_updates\<lparr>u_name := Some ''f9''\<rparr>) 5 =
     Inr (Some 0, retargeted_repository)"
  by (simp add: update_def stored_repository_def retargeted_repository_def example_objects_def
      example_flag_def no_updates_def Object_assign_def Map_has_def Map_delete_def truthy_def)

lemma delete_example:
  "delete stored_repository ''id-1'' = (True, stored_repository\<lparr>flags := []\<rparr>)"
  by (simp add: delete_def stored_repository_def example_objects_def example_flag_def
      Map_delete_def)

text \<open>
  Claim C1 says that after a successful update whose \<open>name\<close> differs from the current
  name the old name resolves to nothing and the new name to the flag. The code misses the
  empty name: the guard \<open>updates.name && ...\<close> is false for it, so the name entry is not
  retargeted, while \<open>Object.assign\<close> still overwrites the name of the flag. After
  \<open>update('id-1', {name: ''})\<close>, which returns the flag, the old name \<open>f1\<close> still resolves
  to the flag and the new name resolves to nothing.
\<close>

theorem update_empty_name_not_retargeted:
  "create (new_repository example_objects) 0 = Inr (0, stored_repository) \<and>
   update stored_repository ''id-1'' (no_updates\<lparr>u_name := Some []\<rparr>) 5 =
     Inr (Some 0, unnamed_repository) \<and>
   [] \<noteq> flag_name (objects stored_repository 0) \<and>
   findByName unnamed_repository (flag_name (objects stored_repository 0)) = Some 0 \<and>
   findByName unnamed_repository [] = None"
  by (simp add: create_def new_repository_def update_def stored_repository_def
      unnamed_repository_def example_objects_def example_flag_def no_updates_def
      Object_assign_def Map_has_def truthy_def findByName_def)

text \<open>
  The parts of the dual-key invariant that the code does keep. After a successful
  \<open>create\<close> of a flag, \<open>findById\<close> of its id and \<open>findByName\<close> of its name return the
  same object, the one that was passed in. After a successful \<open>update\<close> whose \<open>name\<close> is
  truthy and differs from the current name, \<open>findByName\<close> of the old name returns nothing
  and \<open>findByName\<close> of the new name returns the flag. After a successful \<open>delete\<close>,
  \<open>findById\<close> of the deleted key and \<open>findByName\<close> of the flag's name return nothing.
\<close>

lemma dual_key_invariant:
  "(create s r = Inr (r', s') \<longrightarrow>
      r' = r \<and> findById s' (flag_id (objects s' r)) = Some r \<and>
      findByName s' (flag_name (objects s' r)) = Some r) \<and>
   (update s k u now = Inr (Some r, s') \<and> u_name u = Some n \<and> truthy n \<and>
    n \<noteq> flag_name (objects s r) \<longrightarrow>
      findByName s' (flag_name (objects s r)) = None \<and> findByName s' n = Some r \<and>
      flag_name (objects s' r) = n) \<and>
   (delete s k = (True, s') \<and> findById s k = Some r \<longrightarrow>
      findById s' k = None \<and> findByName s' (flag_name (objects s r)) = None)"
proof (intro conjI impI)
  assume c: "create s r = Inr (r', s')"
  show "r' = r"
    using create_stores_both_keys [OF c] by simp
  show "findById s' (flag_id (objects s' r)) = Some r"
    using create_stores_both_keys [OF c] by (simp add: findById_def)
  show "findByName s' (flag_name (objects s' r)) = Some r"
    using create_stores_both_keys [OF c] by (simp add: findByName_def)
next
  assume u: "update s k u now = Inr (Some r, s') \<and> u_name u = Some n \<and> truthy n \<and>
    n \<noteq> flag_name (objects s r)"
  then have *: "Map_get (flags s') (flag_name (objects s r)) = None \<and>
      Map_get (flags s') n = Some r \<and> flag_name (objects s' r) = n"
    using update_retargets_name [of s k u now r s' n] by blast
  show "findByName s' (flag_name (objects s r)) = None"
    using * by (simp add: findByName_def)
  show "findByName s' n = Some r"
    using * by (simp add: findByName_def)
  show "flag_name (objects s' r) = n"
    using * by simp
next
  assume d: "delete s k = (True, s') \<and> findById s k = Some r"
  then have *: "Map_get (flags s') k = None \<and>
      Map_get (flags s') (flag_name (objects s r)) = None"
    using delete_removes_both_keys [of s k s' r] by (simp add: findById_def)
  show "findById s' k = None"
    using * by (simp add: findById_def)
  show "findByName s' (flag_name (objects s r)) = None"
    using * by (simp add: findByName_def)
qed

lemma dual_key_invariant_example:
  "create (new_repository example_objects) 0 = Inr (0, stored_repository) \<and>
   findById stored_repository ''id-1'' = Some 0 \<and>
   findByName stored_repository ''f1'' = Some 0 \<and>
   update stored_repository ''id-1'' (no_updates\<lparr>u_name := Some ''f9''\<rparr>) 5 =
     Inr (Some 0, retargeted_repository) \<and>
   findByName retargeted_repository ''f1'' = None \<and>
   findByName retargeted_repository ''f9'' = Some 0 \<and>
   delete stored_repository ''id-1'' = (True, stored_repository\<lparr>flags := []\<rparr>) \<and>
   findById (stored_repository\<lparr>flags := []\<rparr>) ''id-1'' = None \<and>
   findByName (stored_repository\<lparr>flags := []\<rparr>) ''f1'' = None"
proof -
  have obj: "flag_id (objects stored_repository 0) = ''id-1''"
    "flag_name (objects stored_repository 0) = ''f1''"
    by (simp_all add: stored_repository_def example_objects_def example_flag_def)
  have upd: "u_name (no_updates\<lparr>u_name := Some ''f9''\<rparr>) = Some ''f9''" "truthy ''f9''"
    "''f9'' \<noteq> flag_name (objects stored_repository 0)"
    by (simp_all add: truthy_def obj)
  have found: "findById stored_repository ''id-1'' = Some 0"
    by (simp add: findById_def stored_repository_def)
  note inst1 = dual_key_invariant [where s = "new_repository example_objects" and r = 0
      and r' = 0 and s' = stored_repository]
  note inst2 = dual_key_invariant [where s = stored_repository and r = 0
      and s' = retargeted_repository and k = "''id-1''"
      and u = "no_updates\<lparr>u_name := Some ''f9''\<rparr>" and now = 5 and n = "''f9''"]
  note inst3 = dual_key_invariant [where s = stored_repository and r = 0
      and s' = "stored_repository\<lparr>flags := []\<rparr>" and k = "''id-1''"]
  have a: "findById stored_repository ''id-1'' = Some 0 \<and>
      findByName stored_repository ''f1'' = Some 0"
    using inst1 create_example obj by simp
  have b: "findByName retargeted_repository ''f1'' = None \<and>
      findByName retargeted_repository ''f9'' = Some 0"
    using inst2 update_example upd obj by simp
  have c: "findById (stored_repository\<lparr>flags := []\<rparr>) ''id-1'' = None \<and>
      findByName (stored_repository\<lparr>flags := []\<rparr>) ''f1'' = None"
    using inst3 delete_example found obj by simp
  show ?thesis
    using create_example update_example delete_example a b c by blast
qed

text \<open>
  Claim C2 says that \<open>list\<close> returns each flag at most once. The code returns every
  value of the map that looks like a flag, and a flag is the value of two entries: on the
  repository that holds one created flag, \<open>list()\<close> returns that flag twice. (\<open>count\<close>,
  the sibling, keeps only the entries keyed by the id.)
\<close>

theorem list_repeats_created_flag:
  "create (new_repository example_objects) 0 = Inr (0, stored_repository) \<and>
   list_flags stored_repository no_options = [0, 0] \<and>
   count stored_repository no_options = 1"
  by (simp add: create_def new_repository_def stored_repository_def example_objects_def
      example_flag_def Map_has_def list_flags_def count_def no_options_def Map_values_def
      truthy_def truthy_opt_def Array_slice_def)

text \<open>
  Claim C6 says that \<open>count\<close> is the number of distinct flags matching the filter in every
  reachable state. The code counts the entries whose key is the id of their flag. Create
  a flag whose id and name are both \<open>a\<close> (one entry), then rename it to \<open>b\<close>: \<open>update\<close>
  deletes the entry \<open>a\<close> and adds \<open>b\<close>. The flag is still stored and listed, one logical
  flag, and \<open>count\<close> returns 0.
\<close>

theorem count_misses_renamed_flag:
  "create (new_repository example_objects) 1 = Inr (1, coinciding_repository) \<and>
   update coinciding_repository ''a'' (no_updates\<lparr>u_name := Some ''b''\<rparr>) 5 =
     Inr (Some 1, renamed_repository) \<and>
   findByName renamed_repository ''b'' = Some 1 \<and>
   list_flags renamed_repository no_options = [1] \<and>
   logical_flag_count renamed_repository no_options = 1 \<and>
   count renamed_repository no_options = 0"
  by (simp add: create_def new_repository_def coinciding_repository_def renamed_repository_def
      example_objects_def coinciding_flag_def update_def no_updates_def Object_assign_def
      Map_has_def Map_delete_def findByName_def list_flags_def logical_flag_count_def count_def
      no_options_def Map_values_def truthy_def truthy_opt_def Array_slice_def)

text \<open>
  The three lookups read the one map by key, whatever the kind of the key, and right after
  a successful \<open>create\<close> the flag is found under its name by \<open>findById\<close> and under its id
  by \<open>findByName\<close>.
\<close>

lemma lookups_read_one_map:
  "findById s k = findByName s k \<and> exists_flag s k = (findById s k \<noteq> None)"
  by (simp add: findById_def findByName_def exists_flag_def Map_has_def)

lemma cross_lookups_after_create:
  assumes "create s0 r = Inr (r', s)"
  shows "findById s (flag_name (objects s r)) = Some r \<and>
         findByName s (flag_id (objects s r)) = Some r \<and>
         exists_flag s (flag_name (objects s r))"
  using create_stores_both_keys [OF assms]
  by (simp add: findById_def findByName_def exists_flag_def Map_has_def)

text \<open>
  Claim C10 says that for every stored flag \<open>findById\<close> of its name and \<open>findByName\<close> of
  its id return the flag and \<open>exists\<close> of its name is true. Because the lookups do not
  tell a name from an id, \<open>delete\<close> accepts a name as well; it then deletes the name entry
  twice and leaves the id entry. After \<open>create\<close> of a flag and \<open>delete('f1')\<close>, which
  returns true, the flag is still stored: it is found under its id, listed and counted.
  But \<open>findById\<close> of its name returns nothing and \<open>exists\<close> of its name is false.
\<close>

theorem name_lookup_lost_after_delete_by_name:
  "create (new_repository example_objects) 0 = Inr (0, stored_repository) \<and>
   delete stored_repository ''f1'' = (True, dangling_repository) \<and>
   findById dangling_repository ''id-1'' = Some 0 \<and>
   findByName dangling_repository ''id-1'' = Some 0 \<and>
   list_flags dangling_repository no_options = [0] \<and>
   count dangling_repository no_options = 1 \<and>
   flag_name (objects dangling_repository 0) = ''f1'' \<and>
   findById dangling_repository ''f1'' = None \<and>
   exists_flag dangling_repository ''f1'' = False"
  by (simp add: create_def new_repository_def stored_repository_def dangling_repository_def
      example_objects_def example_flag_def Map_has_def delete_def Map_delete_def
      findById_def findByName_def exists_flag_def list_flags_def count_def no_options_def
      Map_values_def truthy_def truthy_opt_def Array_slice_def)

end
